theory Spec2Isabelle
  imports Main "HOL-Library.Word" "HOL-Library.Monad_Syntax"
begin

unbundle bit_operations_syntax

section \<open>Data model of the GEA transmit path\<close>

type_synonym uint8_t = "8 word"
type_synonym uint16_t = "16 word"

text \<open>GEA addresses of the controller and of the generator boards.\<close>

definition LOCAL_ADDR :: uint8_t where "LOCAL_ADDR = 0x87"
definition GEN1_ADDR :: uint8_t where "GEN1_ADDR = 0x88"
definition GEN2_ADDR :: uint8_t where "GEN2_ADDR = 0x89"
definition GEN3_ADDR :: uint8_t where "GEN3_ADDR = 0x8a"

text \<open>The two globals bounding the power steps; the program never assigns them again.\<close>

definition minPowerSteps :: int where "minPowerSteps = 0"
definition maxPowerSteps :: int where "maxPowerSteps = 19"

text \<open>Enum \<open>GeaHeaderBytes\<close>.\<close>

definition GEA_ESC :: uint8_t where "GEA_ESC = 0xe0"
definition GEA_ACK :: uint8_t where "GEA_ACK = 0xe1"
definition GEA_SOF :: uint8_t where "GEA_SOF = 0xe2"
definition GEA_EOF :: uint8_t where "GEA_EOF = 0xe3"

text \<open>Enum \<open>GeaCommandList\<close>: the two commands the firmware sends.\<close>

definition CMD_SET_BOARD_CONFIG :: uint8_t where "CMD_SET_BOARD_CONFIG = 0x26"
definition CMD_SET_PWR_LEVELS :: uint8_t where "CMD_SET_PWR_LEVELS = 0x28"

text \<open>Enum \<open>CoilProfileId\<close>.\<close>

definition COIL_TYPE_NONE :: uint8_t where "COIL_TYPE_NONE = 0x00"
definition COIL_TYPE_1800_WATT :: uint8_t where "COIL_TYPE_1800_WATT = 0x01"
definition COIL_TYPE_2500_WATT :: uint8_t where "COIL_TYPE_2500_WATT = 0x02"
definition COIL_TYPE_3200_WATT :: uint8_t where "COIL_TYPE_3200_WATT = 0x03"
definition COIL_TYPE_3700_WATT :: uint8_t where "COIL_TYPE_3700_WATT = 0x04"

text \<open>Enum \<open>PersonalityId\<close>, as the integers \<open>initCooktop\<close> switches on.\<close>

definition PERSONALITY_FOUR_COILS :: int where "PERSONALITY_FOUR_COILS = 0"
definition PERSONALITY_FIVE_COILS :: int where "PERSONALITY_FIVE_COILS = 1"

section \<open>Checksum engine\<close>

definition crc16Table :: "uint16_t list" where
  "crc16Table =
    [0x0000, 0x1021, 0x2042, 0x3063, 0x4084, 0x50A5, 0x60C6, 0x70E7,
     0x8108, 0x9129, 0xA14A, 0xB16B, 0xC18C, 0xD1AD, 0xE1CE, 0xF1EF,
     0x1231, 0x0210, 0x3273, 0x2252, 0x52B5, 0x4294, 0x72F7, 0x62D6,
     0x9339, 0x8318, 0xB37B, 0xA35A, 0xD3BD, 0xC39C, 0xF3FF, 0xE3DE,
     0x2462, 0x3443, 0x0420, 0x1401, 0x64E6, 0x74C7, 0x44A4, 0x5485,
     0xA56A, 0xB54B, 0x8528, 0x9509, 0xE5EE, 0xF5CF, 0xC5AC, 0xD58D,
     0x3653, 0x2672, 0x1611, 0x0630, 0x76D7, 0x66F6, 0x5695, 0x46B4,
     0xB75B, 0xA77A, 0x9719, 0x8738, 0xF7DF, 0xE7FE, 0xD79D, 0xC7BC,
     0x48C4, 0x58E5, 0x6886, 0x78A7, 0x0840, 0x1861, 0x2802, 0x3823,
     0xC9CC, 0xD9ED, 0xE98E, 0xF9AF, 0x8948, 0x9969, 0xA90A, 0xB92B,
     0x5AF5, 0x4AD4, 0x7AB7, 0x6A96, 0x1A71, 0x0A50, 0x3A33, 0x2A12,
     0xDBFD, 0xCBDC, 0xFBBF, 0xEB9E, 0x9B79, 0x8B58, 0xBB3B, 0xAB1A,
     0x6CA6, 0x7C87, 0x4CE4, 0x5CC5, 0x2C22, 0x3C03, 0x0C60, 0x1C41,
     0xEDAE, 0xFD8F, 0xCDEC, 0xDDCD, 0xAD2A, 0xBD0B, 0x8D68, 0x9D49,
     0x7E97, 0x6EB6, 0x5ED5, 0x4EF4, 0x3E13, 0x2E32, 0x1E51, 0x0E70,
     0xFF9F, 0xEFBE, 0xDFDD, 0xCFFC, 0xBF1B, 0xAF3A, 0x9F59, 0x8F78,
     0x9188, 0x81A9, 0xB1CA, 0xA1EB, 0xD10C, 0xC12D, 0xF14E, 0xE16F,
     0x1080, 0x00A1, 0x30C2, 0x20E3, 0x5004, 0x4025, 0x7046, 0x6067,
     0x83B9, 0x9398, 0xA3FB, 0xB3DA, 0xC33D, 0xD31C, 0xE37F, 0xF35E,
     0x02B1, 0x1290, 0x22F3, 0x32D2, 0x4235, 0x5214, 0x6277, 0x7256,
     0xB5EA, 0xA5CB, 0x95A8, 0x8589, 0xF56E, 0xE54F, 0xD52C, 0xC50D,
     0x34E2, 0x24C3, 0x14A0, 0x0481, 0x7466, 0x6447, 0x5424, 0x4405,
     0xA7DB, 0xB7FA, 0x8799, 0x97B8, 0xE75F, 0xF77E, 0xC71D, 0xD73C,
     0x26D3, 0x36F2, 0x0691, 0x16B0, 0x6657, 0x7676, 0x4615, 0x5634,
     0xD94C, 0xC96D, 0xF90E, 0xE92F, 0x99C8, 0x89E9, 0xB98A, 0xA9AB,
     0x5844, 0x4865, 0x7806, 0x6827, 0x18C0, 0x08E1, 0x3882, 0x28A3,
     0xCB7D, 0xDB5C, 0xEB3F, 0xFB1E, 0x8BF9, 0x9BD8, 0xABBB, 0xBB9A,
     0x4A75, 0x5A54, 0x6A37, 0x7A16, 0x0AF1, 0x1AD0, 0x2AB3, 0x3A92,
     0xFD2E, 0xED0F, 0xDD6C, 0xCD4D, 0xBDAA, 0xAD8B, 0x9DE8, 0x8DC9,
     0x7C26, 0x6C07, 0x5C64, 0x4C45, 0x3CA2, 0x2C83, 0x1CE0, 0x0CC1,
     0xEF1F, 0xFF3E, 0xCF5D, 0xDF7C, 0xAF9B, 0xBFBA, 0x8FD9, 0x9FF8,
     0x6E17, 0x7E36, 0x4E55, 0x5E74, 0x2E93, 0x3EB2, 0x0ED1, 0x1EF0]"

text \<open>
  One turn of the loop body
  \<^verbatim>\<open>crc16 = (crc16 >> 8) ^ crc16Table[(crc16 ^ (uint16_t)*ptr++) & 0x00ff]\<close>.
  The byte is widened without sign here; \<open>crc16_step_signed_char\<close> below shows that a
  sign-extending \<open>char\<close> gives the same value, the mask keeping the low eight bits only.
\<close>

definition crc16_step :: "uint16_t \<Rightarrow> uint8_t \<Rightarrow> uint16_t" where
  "crc16_step crc16 b =
     drop_bit 8 crc16 XOR crc16Table ! unat ((crc16 XOR ucast b) AND 0x00ff)"

text \<open>
  The \<^verbatim>\<open>for\<close> loop of \<open>CalculateCrc16\<close>: \<open>n\<close> bytes are still to be read at \<open>ptr\<close>.
  The list holds the bytes of the object \<open>ptr\<close> points into; a read past its end is
  outside any object, and the loop then has no value (\<open>None\<close>).
\<close>

fun crc16_loop :: "nat \<Rightarrow> uint8_t list \<Rightarrow> uint16_t \<Rightarrow> uint16_t option" where
  "crc16_loop 0 ptr crc16 = Some crc16"
| "crc16_loop (Suc n) [] crc16 = None"
| "crc16_loop (Suc n) (b # ptr) crc16 = crc16_loop n ptr (crc16_step crc16 b)"

text \<open>
  \<open>CalculateCrc16\<close>: a null pointer (\<open>None\<close>) skips the loop and returns the seed.
  \<open>sizeOfData\<close> is a natural number: every caller passes a positive size.
\<close>

definition CalculateCrc16 :: "uint8_t list option \<Rightarrow> nat \<Rightarrow> uint16_t option" where
  "CalculateCrc16 dataToCheck sizeOfData =
     (case dataToCheck of
        None \<Rightarrow> Some 0xe300
      | Some ptr \<Rightarrow> crc16_loop sizeOfData ptr 0xe300)"

text \<open>
  The checksum as the specification words it: the fold of the step over the bytes in
  order, from the seed.
\<close>

definition checksum_fold :: "uint8_t list \<Rightarrow> uint16_t" where
  "checksum_fold buffer = foldl crc16_step 0xe300 buffer"

text \<open>
  A table-free reference: the remainder of one index byte for the polynomial 0x1021,
  bit by bit (shift left, subtract the polynomial when the top bit falls out), and the
  same register update with that remainder in place of the table entry.
\<close>

definition poly_shift :: "uint16_t \<Rightarrow> uint16_t" where
  "poly_shift r = (if bit r 15 then push_bit 1 r XOR 0x1021 else push_bit 1 r)"

definition poly_remainder :: "uint16_t \<Rightarrow> uint16_t" where
  "poly_remainder i = (poly_shift ^^ 8) (push_bit 8 i)"

definition reference_step :: "uint16_t \<Rightarrow> uint8_t \<Rightarrow> uint16_t" where
  "reference_step crc b = drop_bit 8 crc XOR poly_remainder ((crc XOR ucast b) AND 0xff)"

definition reference_crc16 :: "uint8_t list \<Rightarrow> uint16_t" where
  "reference_crc16 buffer = foldl reference_step 0xe300 buffer"

section \<open>Range check and escape classifier\<close>

definition withinRange :: "int \<Rightarrow> int \<Rightarrow> int \<Rightarrow> bool" where
  "withinRange val minimum maximum = (minimum \<le> val \<and> val \<le> maximum)"

text \<open>The \<^verbatim>\<open>switch\<close> of \<open>isEscaped\<close>: four cases return true, the default false.\<close>

definition isEscaped :: "uint8_t \<Rightarrow> bool" where
  "isEscaped val =
     (if val = GEA_ESC then True
      else if val = GEA_ACK then True
      else if val = GEA_SOF then True
      else if val = GEA_EOF then True
      else False)"

section \<open>Messages and their bytes\<close>

text \<open>The packed header: four bytes, in declaration order.\<close>

record GeaMessageHeader_t =
  sof :: uint8_t
  destination :: uint8_t
  length_field :: uint8_t
  source :: uint8_t

record BoardConfigMsg_t =
  config_header :: GeaMessageHeader_t
  config_command :: uint8_t
  coil1_profile :: uint8_t
  coil2_profile :: uint8_t

record SetPowerLevelsMsg_t =
  header :: GeaMessageHeader_t
  command :: uint8_t
  coil1Power :: uint8_t
  coil2Power :: uint8_t

text \<open>
  The object representation of the packed structs: no padding, one byte per field.
\<close>

definition bytes_of_GeaMessageHeader_t :: "GeaMessageHeader_t \<Rightarrow> uint8_t list" where
  "bytes_of_GeaMessageHeader_t h = [sof h, destination h, length_field h, source h]"

definition bytes_of_BoardConfigMsg_t :: "BoardConfigMsg_t \<Rightarrow> uint8_t list" where
  "bytes_of_BoardConfigMsg_t m =
     bytes_of_GeaMessageHeader_t (config_header m) @
     [config_command m, coil1_profile m, coil2_profile m]"

definition bytes_of_SetPowerLevelsMsg_t :: "SetPowerLevelsMsg_t \<Rightarrow> uint8_t list" where
  "bytes_of_SetPowerLevelsMsg_t m =
     bytes_of_GeaMessageHeader_t (header m) @ [command m, coil1Power m, coil2Power m]"

definition sizeof_BoardConfigMsg_t :: nat where "sizeof_BoardConfigMsg_t = 7"
definition sizeof_SetPowerLevelsMsg_t :: nat where "sizeof_SetPowerLevelsMsg_t = 7"

text \<open>
  \<^verbatim>\<open>memcpy(txBuffer, &msg, txBufferSize)\<close> with \<open>txBufferSize\<close> larger than the struct:
  the first bytes of the destination are the struct's, the others are whatever lies
  behind \<open>msg\<close> in memory. That memory is a parameter of the model, \<open>beyond k\<close> being the
  byte \<open>k\<close> places past the end of the source object. The result is the content of the
  \<open>n\<close>-byte destination.
\<close>

definition memcpy :: "uint8_t list \<Rightarrow> (nat \<Rightarrow> uint8_t) \<Rightarrow> nat \<Rightarrow> uint8_t list" where
  "memcpy src beyond n = take n src @ map beyond [0..<n - length src]"

section \<open>Serial ports\<close>

text \<open>
  What the firmware has written so far: the console (\<open>Serial\<close>), the GEA bus
  (\<open>Serial2\<close>), and the milliseconds spent in \<open>delay\<close>.
\<close>

record io =
  Serial :: string
  Serial2 :: "uint8_t list"
  delayed :: nat

definition Serial_println :: "string \<Rightarrow> io \<Rightarrow> io" where
  "Serial_println str s = s\<lparr>Serial := Serial s @ str @ [CHR 0x0D, CHR 0x0A]\<rparr>"

text \<open>\<open>Serial2.print\<close> of a \<open>char\<close> writes that one byte.\<close>

definition Serial2_print :: "uint8_t \<Rightarrow> io \<Rightarrow> io" where
  "Serial2_print c s = s\<lparr>Serial2 := Serial2 s @ [c]\<rparr>"

definition delay :: "nat \<Rightarrow> io \<Rightarrow> io" where
  "delay ms s = s\<lparr>delayed := delayed s + ms\<rparr>"

text \<open>The transmit loop \<^verbatim>\<open>for(int i=0; i<txBufferSize; i++) Serial2.print(txBuffer[i])\<close>.\<close>

fun print_txBuffer :: "uint8_t list \<Rightarrow> io \<Rightarrow> io" where
  "print_txBuffer [] s = s"
| "print_txBuffer (c # txBuffer) s = print_txBuffer txBuffer (Serial2_print c s)"

section \<open>Board commands\<close>

text \<open>
  \<open>initSingleGenerator\<close>, from the declaration of \<open>msg\<close> to the last write into
  \<open>txBuffer\<close>. Every index written lies inside the buffer. The result is \<open>None\<close> only if
  the checksum loop leaves the buffer.
\<close>

definition initSingleGenerator_txBuffer ::
  "(nat \<Rightarrow> uint8_t) \<Rightarrow> uint8_t \<Rightarrow> uint8_t \<Rightarrow> uint8_t \<Rightarrow> uint8_t list option" where
  "initSingleGenerator_txBuffer beyond address profile1 profile2 =
     (let msg = \<lparr>config_header =
                   \<lparr>sof = GEA_SOF, destination = address, length_field = 0x0a,
                    source = LOCAL_ADDR\<rparr>,
                 config_command = CMD_SET_BOARD_CONFIG,
                 coil1_profile = profile1, coil2_profile = profile2\<rparr>;
          txBufferSize = sizeof_BoardConfigMsg_t + 4;
          txBuffer = memcpy (bytes_of_BoardConfigMsg_t msg) beyond txBufferSize
      in case CalculateCrc16 (Some txBuffer) (txBufferSize - 4) of
           None \<Rightarrow> None
         | Some crc16 \<Rightarrow>
             Some (txBuffer
               [txBufferSize - 4 := ucast (crc16 AND 0xff),
                txBufferSize - 3 := ucast (drop_bit 8 crc16),
                txBufferSize - 2 := GEA_EOF,
                txBufferSize - 1 := GEA_ACK]))"

text \<open>The whole function: build, transmit byte by byte, return 0.\<close>

definition initSingleGenerator ::
  "(nat \<Rightarrow> uint8_t) \<Rightarrow> uint8_t \<Rightarrow> uint8_t \<Rightarrow> uint8_t \<Rightarrow> io \<Rightarrow> (int \<times> io) option" where
  "initSingleGenerator beyond address profile1 profile2 s =
     (case initSingleGenerator_txBuffer beyond address profile1 profile2 of
        None \<Rightarrow> None
      | Some txBuffer \<Rightarrow> Some (0, print_txBuffer txBuffer s))"

text \<open>
  \<open>setPowerLevels\<close> after the range check, up to the last write into \<open>txBuffer\<close>.
  The checksum call is over \<open>txBufferSize + escapedBytes - 4\<close> bytes, as in the source.
\<close>

definition setPowerLevels_txBuffer ::
  "(nat \<Rightarrow> uint8_t) \<Rightarrow> uint8_t \<Rightarrow> uint8_t \<Rightarrow> uint8_t \<Rightarrow> uint8_t \<Rightarrow> uint8_t list option" where
  "setPowerLevels_txBuffer beyond address coil1Level coil2Level heartbeat =
     (let escapedBytes = (if isEscaped heartbeat then 1 else 0 :: nat);
          msg = \<lparr>header =
                   \<lparr>sof = GEA_SOF, destination = address, length_field = 0x0b,
                    source = LOCAL_ADDR\<rparr>,
                 command = CMD_SET_PWR_LEVELS,
                 coil1Power = coil1Level, coil2Power = coil2Level\<rparr>;
          txBufferSize = sizeof_SetPowerLevelsMsg_t + 5 + escapedBytes;
          txBuffer = memcpy (bytes_of_SetPowerLevelsMsg_t msg) beyond txBufferSize;
          txBuffer = (if 0 < escapedBytes then txBuffer[txBufferSize - 6 := GEA_ESC]
                      else txBuffer);
          txBuffer = txBuffer[txBufferSize - 5 := heartbeat]
      in case CalculateCrc16 (Some txBuffer) (txBufferSize + escapedBytes - 4) of
           None \<Rightarrow> None
         | Some crc16 \<Rightarrow>
             Some (txBuffer
               [txBufferSize - 4 := ucast (crc16 AND 0xff),
                txBufferSize - 3 := ucast (drop_bit 8 crc16),
                txBufferSize - 2 := GEA_EOF,
                txBufferSize - 1 := GEA_ACK]))"

text \<open>
  The whole function. The levels arrive as \<open>uint8_t\<close> and are compared as \<open>int\<close>;
  the command is refused only when both are out of range.
\<close>

definition setPowerLevels ::
  "(nat \<Rightarrow> uint8_t) \<Rightarrow> uint8_t \<Rightarrow> uint8_t \<Rightarrow> uint8_t \<Rightarrow> uint8_t \<Rightarrow> io \<Rightarrow> (int \<times> io) option" where
  "setPowerLevels beyond address coil1Level coil2Level heartbeat s =
     (if \<not> withinRange (uint coil1Level) minPowerSteps maxPowerSteps \<and>
         \<not> withinRange (uint coil2Level) minPowerSteps maxPowerSteps
      then Some (- 1, Serial_println ''Power level out of range!'' s)
      else case setPowerLevels_txBuffer beyond address coil1Level coil2Level heartbeat of
             None \<Rightarrow> None
           | Some txBuffer \<Rightarrow> Some (0, print_txBuffer txBuffer s))"

section \<open>Initialization sequencer\<close>

text \<open>
  \<open>initCooktop\<close>: the return value of every command is dropped, each command is
  followed by \<open>delay(100)\<close>. \<open>beyond k\<close> is the memory the \<open>k\<close>-th command finds behind
  its \<open>msg\<close>.
\<close>

definition initCooktop :: "(nat \<Rightarrow> nat \<Rightarrow> uint8_t) \<Rightarrow> int \<Rightarrow> io \<Rightarrow> (int \<times> io) option" where
  "initCooktop beyond personality s =
     (if personality = PERSONALITY_FOUR_COILS then do {
        (_, s) \<leftarrow> initSingleGenerator (beyond 0) GEN1_ADDR COIL_TYPE_2500_WATT COIL_TYPE_2500_WATT s;
        let s = delay 100 s;
        (_, s) \<leftarrow> initSingleGenerator (beyond 1) GEN2_ADDR COIL_TYPE_3700_WATT COIL_TYPE_1800_WATT s;
        let s = delay 100 s;
        (_, s) \<leftarrow> setPowerLevels (beyond 2) GEN1_ADDR 0 0 0 s;
        let s = delay 100 s;
        (_, s) \<leftarrow> setPowerLevels (beyond 3) GEN2_ADDR 0 0 0 s;
        let s = delay 100 s;
        Some (0, s)
      }
      else if personality = PERSONALITY_FIVE_COILS then do {
        (_, s) \<leftarrow> initSingleGenerator (beyond 0) GEN1_ADDR COIL_TYPE_2500_WATT COIL_TYPE_2500_WATT s;
        let s = delay 100 s;
        (_, s) \<leftarrow> initSingleGenerator (beyond 1) GEN2_ADDR COIL_TYPE_3700_WATT COIL_TYPE_NONE s;
        let s = delay 100 s;
        (_, s) \<leftarrow> initSingleGenerator (beyond 2) GEN3_ADDR COIL_TYPE_1800_WATT COIL_TYPE_3200_WATT s;
        let s = delay 100 s;
        (_, s) \<leftarrow> setPowerLevels (beyond 3) GEN1_ADDR 0 0 0 s;
        let s = delay 100 s;
        (_, s) \<leftarrow> setPowerLevels (beyond 4) GEN2_ADDR 0 0 0 s;
        let s = delay 100 s;
        (_, s) \<leftarrow> setPowerLevels (beyond 5) GEN3_ADDR 0 0 0 s;
        let s = delay 100 s;
        Some (0, s)
      }
      else Some (0, s))"

section \<open>Vocabulary of the properties\<close>

text \<open>
  The memory behind \<open>msg\<close> filled with one value, and the state of the ports at boot:
  concrete inputs for the evaluations below.
\<close>

definition stale_fill :: "uint8_t \<Rightarrow> nat \<Rightarrow> uint8_t" where
  "stale_fill v k = v"

definition io_boot :: io where
  "io_boot = \<lparr>Serial = [], Serial2 = [], delayed = 0\<rparr>"

text \<open>The two checksum bytes as the builders store them: low byte, then high byte.\<close>

definition crc16_lo :: "uint16_t \<Rightarrow> uint8_t" where
  "crc16_lo crc16 = ucast (crc16 AND 0xff)"

definition crc16_hi :: "uint16_t \<Rightarrow> uint8_t" where
  "crc16_hi crc16 = ucast (drop_bit 8 crc16)"

text \<open>
  The reference decoder of the round-trip property, following the specification's words
  (the firmware has no receive path): strip the trailer (end-of-frame and
  acknowledgment marker), remove the escape markers, split off the two checksum bytes,
  verify them against the table-free reference checksum of the bytes before them, and
  yield those bytes (header fields, command, payload).
\<close>

fun remove_escapes :: "uint8_t list \<Rightarrow> uint8_t list" where
  "remove_escapes [] = []"
| "remove_escapes [b] = [b]"
| "remove_escapes (b # c # bs) =
     (if b = GEA_ESC then c # remove_escapes bs else b # remove_escapes (c # bs))"

definition reference_decode :: "uint8_t list \<Rightarrow> uint8_t list option" where
  "reference_decode frame =
     (let n = length frame in
      if 2 \<le> n \<and> drop (n - 2) frame = [GEA_EOF, GEA_ACK] then
        (let body = remove_escapes (take (n - 2) frame);
             m = length body;
             logical = take (m - 2) body;
             crc16 = reference_crc16 logical
         in if 2 \<le> m \<and> drop (m - 2) body = [crc16_lo crc16, crc16_hi crc16]
            then Some logical else None)
      else None)"

section \<open>Properties of the checksum engine\<close>

lemma length_crc16Table: "length crc16Table = 256"
  by (simp add: crc16Table_def)

lemma crc16_loop_take:
  "n \<le> length ptr \<Longrightarrow> crc16_loop n ptr crc = Some (foldl crc16_step crc (take n ptr))"
  by (induction n ptr crc rule: crc16_loop.induct) simp_all

lemma crc16_loop_past_end: "length ptr < n \<Longrightarrow> crc16_loop n ptr crc = None"
  by (induction n ptr crc rule: crc16_loop.induct) simp_all

lemma CalculateCrc16_prefix:
  "n \<le> length buffer \<Longrightarrow>
     CalculateCrc16 (Some buffer) n = Some (checksum_fold (take n buffer))"
  by (simp add: CalculateCrc16_def checksum_fold_def crc16_loop_take)

lemma CalculateCrc16_whole:
  "CalculateCrc16 (Some buffer) (length buffer) = Some (checksum_fold buffer)"
  by (simp add: CalculateCrc16_prefix)

lemma crc16_step_signed_char:
  "drop_bit 8 crc16 XOR crc16Table ! unat ((crc16 XOR scast b) AND 0x00ff) = crc16_step crc16 b"
proof -
  have m: "(0x00ff :: uint16_t) = mask 8"
    by (simp add: mask_eq_decr_exp)
  have "(crc16 XOR scast b) AND mask 8 = (crc16 XOR ucast b) AND (mask 8 :: uint16_t)"
  proof (rule bit_word_eqI)
    fix n
    show "bit ((crc16 XOR scast b) AND (mask 8 :: uint16_t)) n
            = bit ((crc16 XOR ucast b) AND (mask 8 :: uint16_t)) n"
    proof (cases "n < 8")
      case True
      then have "min 7 n = n" by simp
      with True show ?thesis by (simp add: bit_simps)
    next
      case False
      then show ?thesis by (simp add: bit_simps)
    qed
  qed
  then show ?thesis by (simp add: crc16_step_def m)
qed

lemma funpow8: "(f ^^ 8) x = f (f (f (f (f (f (f (f x)))))))"
  by (simp add: eval_nat_numeral)

lemma indices_256: "[0..<256] = [0x00, 0x01, 0x02, 0x03, 0x04, 0x05, 0x06, 0x07, 0x08, 0x09, 0x0A, 0x0B, 0x0C, 0x0D, 0x0E, 0x0F,
     0x10, 0x11, 0x12, 0x13, 0x14, 0x15, 0x16, 0x17, 0x18, 0x19, 0x1A, 0x1B, 0x1C, 0x1D, 0x1E, 0x1F,
     0x20, 0x21, 0x22, 0x23, 0x24, 0x25, 0x26, 0x27, 0x28, 0x29, 0x2A, 0x2B, 0x2C, 0x2D, 0x2E, 0x2F,
     0x30, 0x31, 0x32, 0x33, 0x34, 0x35, 0x36, 0x37, 0x38, 0x39, 0x3A, 0x3B, 0x3C, 0x3D, 0x3E, 0x3F,
     0x40, 0x41, 0x42, 0x43, 0x44, 0x45, 0x46, 0x47, 0x48, 0x49, 0x4A, 0x4B, 0x4C, 0x4D, 0x4E, 0x4F,
     0x50, 0x51, 0x52, 0x53, 0x54, 0x55, 0x56, 0x57, 0x58, 0x59, 0x5A, 0x5B, 0x5C, 0x5D, 0x5E, 0x5F,
     0x60, 0x61, 0x62, 0x63, 0x64, 0x65, 0x66, 0x67, 0x68, 0x69, 0x6A, 0x6B, 0x6C, 0x6D, 0x6E, 0x6F,
     0x70, 0x71, 0x72, 0x73, 0x74, 0x75, 0x76, 0x77, 0x78, 0x79, 0x7A, 0x7B, 0x7C, 0x7D, 0x7E, 0x7F,
     0x80, 0x81, 0x82, 0x83, 0x84, 0x85, 0x86, 0x87, 0x88, 0x89, 0x8A, 0x8B, 0x8C, 0x8D, 0x8E, 0x8F,
     0x90, 0x91, 0x92, 0x93, 0x94, 0x95, 0x96, 0x97, 0x98, 0x99, 0x9A, 0x9B, 0x9C, 0x9D, 0x9E, 0x9F,
     0xA0, 0xA1, 0xA2, 0xA3, 0xA4, 0xA5, 0xA6, 0xA7, 0xA8, 0xA9, 0xAA, 0xAB, 0xAC, 0xAD, 0xAE, 0xAF,
     0xB0, 0xB1, 0xB2, 0xB3, 0xB4, 0xB5, 0xB6, 0xB7, 0xB8, 0xB9, 0xBA, 0xBB, 0xBC, 0xBD, 0xBE, 0xBF,
     0xC0, 0xC1, 0xC2, 0xC3, 0xC4, 0xC5, 0xC6, 0xC7, 0xC8, 0xC9, 0xCA, 0xCB, 0xCC, 0xCD, 0xCE, 0xCF,
     0xD0, 0xD1, 0xD2, 0xD3, 0xD4, 0xD5, 0xD6, 0xD7, 0xD8, 0xD9, 0xDA, 0xDB, 0xDC, 0xDD, 0xDE, 0xDF,
     0xE0, 0xE1, 0xE2, 0xE3, 0xE4, 0xE5, 0xE6, 0xE7, 0xE8, 0xE9, 0xEA, 0xEB, 0xEC, 0xED, 0xEE, 0xEF,
     0xF0, 0xF1, 0xF2, 0xF3, 0xF4, 0xF5, 0xF6, 0xF7, 0xF8, 0xF9, 0xFA, 0xFB, 0xFC, 0xFD, 0xFE, 0xFF]"
  by code_simp

lemma crc16Table_remainders: "map poly_remainder [0x00, 0x01, 0x02, 0x03, 0x04, 0x05, 0x06, 0x07, 0x08, 0x09, 0x0A, 0x0B, 0x0C, 0x0D, 0x0E, 0x0F,
     0x10, 0x11, 0x12, 0x13, 0x14, 0x15, 0x16, 0x17, 0x18, 0x19, 0x1A, 0x1B, 0x1C, 0x1D, 0x1E, 0x1F,
     0x20, 0x21, 0x22, 0x23, 0x24, 0x25, 0x26, 0x27, 0x28, 0x29, 0x2A, 0x2B, 0x2C, 0x2D, 0x2E, 0x2F,
     0x30, 0x31, 0x32, 0x33, 0x34, 0x35, 0x36, 0x37, 0x38, 0x39, 0x3A, 0x3B, 0x3C, 0x3D, 0x3E, 0x3F,
     0x40, 0x41, 0x42, 0x43, 0x44, 0x45, 0x46, 0x47, 0x48, 0x49, 0x4A, 0x4B, 0x4C, 0x4D, 0x4E, 0x4F,
     0x50, 0x51, 0x52, 0x53, 0x54, 0x55, 0x56, 0x57, 0x58, 0x59, 0x5A, 0x5B, 0x5C, 0x5D, 0x5E, 0x5F,
     0x60, 0x61, 0x62, 0x63, 0x64, 0x65, 0x66, 0x67, 0x68, 0x69, 0x6A, 0x6B, 0x6C, 0x6D, 0x6E, 0x6F,
     0x70, 0x71, 0x72, 0x73, 0x74, 0x75, 0x76, 0x77, 0x78, 0x79, 0x7A, 0x7B, 0x7C, 0x7D, 0x7E, 0x7F,
     0x80, 0x81, 0x82, 0x83, 0x84, 0x85, 0x86, 0x87, 0x88, 0x89, 0x8A, 0x8B, 0x8C, 0x8D, 0x8E, 0x8F,
     0x90, 0x91, 0x92, 0x93, 0x94, 0x95, 0x96, 0x97, 0x98, 0x99, 0x9A, 0x9B, 0x9C, 0x9D, 0x9E, 0x9F,
     0xA0, 0xA1, 0xA2, 0xA3, 0xA4, 0xA5, 0xA6, 0xA7, 0xA8, 0xA9, 0xAA, 0xAB, 0xAC, 0xAD, 0xAE, 0xAF,
     0xB0, 0xB1, 0xB2, 0xB3, 0xB4, 0xB5, 0xB6, 0xB7, 0xB8, 0xB9, 0xBA, 0xBB, 0xBC, 0xBD, 0xBE, 0xBF,
     0xC0, 0xC1, 0xC2, 0xC3, 0xC4, 0xC5, 0xC6, 0xC7, 0xC8, 0xC9, 0xCA, 0xCB, 0xCC, 0xCD, 0xCE, 0xCF,
     0xD0, 0xD1, 0xD2, 0xD3, 0xD4, 0xD5, 0xD6, 0xD7, 0xD8, 0xD9, 0xDA, 0xDB, 0xDC, 0xDD, 0xDE, 0xDF,
     0xE0, 0xE1, 0xE2, 0xE3, 0xE4, 0xE5, 0xE6, 0xE7, 0xE8, 0xE9, 0xEA, 0xEB, 0xEC, 0xED, 0xEE, 0xEF,
     0xF0, 0xF1, 0xF2, 0xF3, 0xF4, 0xF5, 0xF6, 0xF7, 0xF8, 0xF9, 0xFA, 0xFB, 0xFC, 0xFD, 0xFE, 0xFF] = crc16Table"
  unfolding crc16Table_def
  by (simp add: poly_remainder_def poly_shift_def funpow8)

lemma crc16Table_nth:
  assumes "i < 256"
  shows "crc16Table ! i = poly_remainder (of_nat i)"
proof -
  have "map (\<lambda>k. poly_remainder (of_nat k)) [0..<256] = crc16Table"
    unfolding indices_256 using crc16Table_remainders by simp
  then have "crc16Table ! i = map (\<lambda>k. poly_remainder (of_nat k)) [0..<256] ! i"
    by simp
  also have "\<dots> = poly_remainder (of_nat i)"
    using assms by (simp only: nth_map_upt) simp
  finally show ?thesis .
qed

lemma crc16_step_reference: "crc16_step crc b = reference_step crc b"
proof -
  let ?w = "(crc XOR ucast b) AND (0xff :: uint16_t)"
  have "?w \<le> 0xff" by (rule word_and_le1)
  then have lt: "unat ?w < 256" by (simp add: word_le_nat_alt)
  have "crc16Table ! unat ?w = poly_remainder (of_nat (unat ?w))"
    using lt by (rule crc16Table_nth)
  then show ?thesis by (simp add: crc16_step_def reference_step_def)
qed

lemma checksum_fold_reference: "checksum_fold buffer = reference_crc16 buffer"
proof -
  have "crc16_step = reference_step"
    by (intro ext) (rule crc16_step_reference)
  then show ?thesis by (simp add: checksum_fold_def reference_crc16_def)
qed

section \<open>The frames the builders produce\<close>

lemma print_txBuffer_eq: "print_txBuffer txBuffer s = s\<lparr>Serial2 := Serial2 s @ txBuffer\<rparr>"
  by (induction txBuffer arbitrary: s) (simp_all add: Serial2_print_def)

lemma memcpy_7_11:
  "memcpy [b0, b1, b2, b3, b4, b5, b6] beyond 11
     = [b0, b1, b2, b3, b4, b5, b6, beyond 0, beyond 1, beyond 2, beyond 3]"
  by (simp add: memcpy_def upt_conv_Cons eval_nat_numeral)

lemma memcpy_7_12:
  "memcpy [b0, b1, b2, b3, b4, b5, b6] beyond 12
     = [b0, b1, b2, b3, b4, b5, b6, beyond 0, beyond 1, beyond 2, beyond 3, beyond 4]"
  by (simp add: memcpy_def upt_conv_Cons eval_nat_numeral)

lemma memcpy_7_13:
  "memcpy [b0, b1, b2, b3, b4, b5, b6] beyond 13
     = [b0, b1, b2, b3, b4, b5, b6, beyond 0, beyond 1, beyond 2, beyond 3, beyond 4, beyond 5]"
  by (simp add: memcpy_def upt_conv_Cons eval_nat_numeral)

lemma initSingleGenerator_txBuffer_eq:
  "initSingleGenerator_txBuffer beyond address profile1 profile2 =
     Some [GEA_SOF, address, 0x0a, LOCAL_ADDR, CMD_SET_BOARD_CONFIG, profile1, profile2,
           crc16_lo (checksum_fold [GEA_SOF, address, 0x0a, LOCAL_ADDR, CMD_SET_BOARD_CONFIG,
                                 profile1, profile2]),
           crc16_hi (checksum_fold [GEA_SOF, address, 0x0a, LOCAL_ADDR,
                                 CMD_SET_BOARD_CONFIG, profile1, profile2]),
           GEA_EOF, GEA_ACK]"
  by (simp add: initSingleGenerator_txBuffer_def Let_def sizeof_BoardConfigMsg_t_def
      bytes_of_BoardConfigMsg_t_def bytes_of_GeaMessageHeader_t_def memcpy_7_11
      CalculateCrc16_prefix crc16_lo_def crc16_hi_def)

lemma setPowerLevels_txBuffer_plain:
  "\<not> isEscaped heartbeat \<Longrightarrow>
   setPowerLevels_txBuffer beyond address coil1Level coil2Level heartbeat =
     Some [GEA_SOF, address, 0x0b, LOCAL_ADDR, CMD_SET_PWR_LEVELS, coil1Level, coil2Level,
           heartbeat,
           crc16_lo (checksum_fold [GEA_SOF, address, 0x0b, LOCAL_ADDR, CMD_SET_PWR_LEVELS,
                                 coil1Level, coil2Level, heartbeat]),
           crc16_hi (checksum_fold [GEA_SOF, address, 0x0b, LOCAL_ADDR,
                                 CMD_SET_PWR_LEVELS, coil1Level, coil2Level, heartbeat]),
           GEA_EOF, GEA_ACK]"
  by (simp add: setPowerLevels_txBuffer_def Let_def sizeof_SetPowerLevelsMsg_t_def
      bytes_of_SetPowerLevelsMsg_t_def bytes_of_GeaMessageHeader_t_def memcpy_7_12
      CalculateCrc16_prefix crc16_lo_def crc16_hi_def)

lemma setPowerLevels_txBuffer_escaped:
  "isEscaped heartbeat \<Longrightarrow>
   setPowerLevels_txBuffer beyond address coil1Level coil2Level heartbeat =
     Some [GEA_SOF, address, 0x0b, LOCAL_ADDR, CMD_SET_PWR_LEVELS, coil1Level, coil2Level,
           GEA_ESC, heartbeat,
           crc16_lo (checksum_fold [GEA_SOF, address, 0x0b, LOCAL_ADDR, CMD_SET_PWR_LEVELS,
                                 coil1Level, coil2Level, GEA_ESC, heartbeat, beyond 2]),
           crc16_hi (checksum_fold [GEA_SOF, address, 0x0b, LOCAL_ADDR,
                                 CMD_SET_PWR_LEVELS, coil1Level, coil2Level, GEA_ESC,
                                 heartbeat, beyond 2]),
           GEA_EOF, GEA_ACK]"
  by (simp add: setPowerLevels_txBuffer_def Let_def sizeof_SetPowerLevelsMsg_t_def
      bytes_of_SetPowerLevelsMsg_t_def bytes_of_GeaMessageHeader_t_def memcpy_7_13
      CalculateCrc16_prefix crc16_lo_def crc16_hi_def)

section \<open>The two commands on the ports\<close>

lemma initSingleGenerator_eq:
  "initSingleGenerator beyond address profile1 profile2 s =
     Some (0, s\<lparr>Serial2 := Serial2 s @
       [GEA_SOF, address, 0x0a, LOCAL_ADDR, CMD_SET_BOARD_CONFIG, profile1, profile2,
        crc16_lo (checksum_fold [GEA_SOF, address, 0x0a, LOCAL_ADDR, CMD_SET_BOARD_CONFIG,
                                 profile1, profile2]),
        crc16_hi (checksum_fold [GEA_SOF, address, 0x0a, LOCAL_ADDR, CMD_SET_BOARD_CONFIG,
                                 profile1, profile2]),
        GEA_EOF, GEA_ACK]\<rparr>)"
  by (simp add: initSingleGenerator_def initSingleGenerator_txBuffer_eq print_txBuffer_eq)

lemma setPowerLevels_refused:
  "uint coil1Level \<notin> {0..19} \<Longrightarrow> uint coil2Level \<notin> {0..19} \<Longrightarrow>
   setPowerLevels beyond address coil1Level coil2Level heartbeat s =
     Some (- 1, Serial_println ''Power level out of range!'' s)"
  by (simp add: setPowerLevels_def withinRange_def minPowerSteps_def maxPowerSteps_def)

lemma setPowerLevels_accepted:
  "uint coil1Level \<in> {0..19} \<or> uint coil2Level \<in> {0..19} \<Longrightarrow>
   setPowerLevels beyond address coil1Level coil2Level heartbeat s =
     map_option (\<lambda>txBuffer. (0, s\<lparr>Serial2 := Serial2 s @ txBuffer\<rparr>))
       (setPowerLevels_txBuffer beyond address coil1Level coil2Level heartbeat)"
  by (cases "setPowerLevels_txBuffer beyond address coil1Level coil2Level heartbeat")
    (auto simp add: setPowerLevels_def withinRange_def minPowerSteps_def maxPowerSteps_def
      print_txBuffer_eq)

lemma Serial2_println: "Serial2 (Serial_println str s) = Serial2 s"
  by (simp add: Serial_println_def)

lemma setPowerLevels_bus_only:
  "map_option (\<lambda>(r, s'). (r, drop (length (Serial2 s)) (Serial2 s')))
     (setPowerLevels beyond address coil1Level coil2Level heartbeat (Serial_println str s))
   = map_option (\<lambda>(r, s'). (r, drop (length (Serial2 s)) (Serial2 s')))
     (setPowerLevels beyond address coil1Level coil2Level heartbeat s)"
  by (cases "setPowerLevels_txBuffer beyond address coil1Level coil2Level heartbeat")
    (simp_all add: setPowerLevels_def print_txBuffer_eq Serial2_println)

subsection \<open>Constants and checksum values at concrete inputs\<close>

lemmas gea_consts = GEA_ESC_def GEA_ACK_def GEA_SOF_def GEA_EOF_def LOCAL_ADDR_def
  GEN1_ADDR_def GEN2_ADDR_def GEN3_ADDR_def CMD_SET_BOARD_CONFIG_def CMD_SET_PWR_LEVELS_def
  COIL_TYPE_NONE_def COIL_TYPE_1800_WATT_def COIL_TYPE_2500_WATT_def
  COIL_TYPE_3200_WATT_def COIL_TYPE_3700_WATT_def

lemma checksum_config_88_2_2:
  "checksum_fold [0xe2, 0x88, 0x0a, 0x87, 0x26, 0x02, 0x02] = 0x36A6"
  by code_simp

lemma checksum_config_89_4_1:
  "checksum_fold [0xe2, 0x89, 0x0a, 0x87, 0x26, 0x04, 0x01] = 0x8D04"
  by code_simp

lemma checksum_config_89_4_0:
  "checksum_fold [0xe2, 0x89, 0x0a, 0x87, 0x26, 0x04, 0x00] = 0x9D25"
  by code_simp

lemma checksum_config_8a_1_3:
  "checksum_fold [0xe2, 0x8a, 0x0a, 0x87, 0x26, 0x01, 0x03] = 0x2814"
  by code_simp

lemma checksum_power_88_zero:
  "checksum_fold [0xe2, 0x88, 0x0b, 0x87, 0x28, 0, 0, 0] = 0x643D"
  by code_simp

lemma checksum_power_89_zero:
  "checksum_fold [0xe2, 0x89, 0x0b, 0x87, 0x28, 0, 0, 0] = 0xF106"
  by code_simp

lemma checksum_power_8a_zero:
  "checksum_fold [0xe2, 0x8a, 0x0b, 0x87, 0x28, 0, 0, 0] = 0x680F"
  by code_simp

lemma checksum_power_88_hb_e0_logical:
  "checksum_fold [0xe2, 0x88, 0x0b, 0x87, 0x28, 0, 0, 0xe0] = 0x9913"
  by code_simp

lemma checksum_power_88_hb_e0_stale_0:
  "checksum_fold [0xe2, 0x88, 0x0b, 0x87, 0x28, 0, 0, 0xe0, 0xe0, 0] = 0xAD54"
  by code_simp

lemma checksum_power_88_hb_e0_stale_1:
  "checksum_fold [0xe2, 0x88, 0x0b, 0x87, 0x28, 0, 0, 0xe0, 0xe0, 1] = 0xBD75"
  by code_simp

lemma checksum_power_88_coil2_e0:
  "checksum_fold [0xe2, 0x88, 0x0b, 0x87, 0x28, 0, 0xe0, 0] = 0xA16C"
  by code_simp

lemma checksum_power_88_hb_31:
  "checksum_fold [0xe2, 0x88, 0x0b, 0x87, 0x28, 0, 0, 0x1f] = 0x87E3"
  by code_simp


lemma isEscaped_iff:
  "isEscaped b \<longleftrightarrow> b = 0xe0 \<or> b = 0xe1 \<or> b = 0xe2 \<or> b = 0xe3"
  by (auto simp add: isEscaped_def gea_consts)

text \<open>The two stored bytes are the low and the high half of the checksum.\<close>

lemma crc16_lo_hi: "word_cat (crc16_hi crc16) (crc16_lo crc16) = crc16"
proof -
  have m: "(0xff :: uint16_t) = mask 8"
    by (simp add: mask_eq_decr_exp)
  show ?thesis
    unfolding crc16_lo_def crc16_hi_def m
    by (rule bit_word_eqI) (auto simp add: bit_simps)
qed

subsection \<open>The frames of the initialization sequence\<close>

lemma config_frame_board1:
  "initSingleGenerator_txBuffer beyond GEN1_ADDR COIL_TYPE_2500_WATT COIL_TYPE_2500_WATT =
     Some [0xE2, 0x88, 0x0A, 0x87, 0x26, 0x02, 0x02, 0xA6, 0x36, 0xE3, 0xE1]"
  by (simp add: initSingleGenerator_txBuffer_eq gea_consts checksum_config_88_2_2
      crc16_lo_def crc16_hi_def)

lemma config_frame_board2_four_coils:
  "initSingleGenerator_txBuffer beyond GEN2_ADDR COIL_TYPE_3700_WATT COIL_TYPE_1800_WATT =
     Some [0xE2, 0x89, 0x0A, 0x87, 0x26, 0x04, 0x01, 0x04, 0x8D, 0xE3, 0xE1]"
  by (simp add: initSingleGenerator_txBuffer_eq gea_consts checksum_config_89_4_1
      crc16_lo_def crc16_hi_def)

lemma config_frame_board2_five_coils:
  "initSingleGenerator_txBuffer beyond GEN2_ADDR COIL_TYPE_3700_WATT COIL_TYPE_NONE =
     Some [0xE2, 0x89, 0x0A, 0x87, 0x26, 0x04, 0x00, 0x25, 0x9D, 0xE3, 0xE1]"
  by (simp add: initSingleGenerator_txBuffer_eq gea_consts checksum_config_89_4_0
      crc16_lo_def crc16_hi_def)

lemma config_frame_board3:
  "initSingleGenerator_txBuffer beyond GEN3_ADDR COIL_TYPE_1800_WATT COIL_TYPE_3200_WATT =
     Some [0xE2, 0x8A, 0x0A, 0x87, 0x26, 0x01, 0x03, 0x14, 0x28, 0xE3, 0xE1]"
  by (simp add: initSingleGenerator_txBuffer_eq gea_consts checksum_config_8a_1_3
      crc16_lo_def crc16_hi_def)

lemma zero_frame_board1:
  "setPowerLevels_txBuffer beyond GEN1_ADDR 0 0 0 =
     Some [0xE2, 0x88, 0x0B, 0x87, 0x28, 0x00, 0x00, 0x00, 0x3D, 0x64, 0xE3, 0xE1]"
  by (simp add: setPowerLevels_txBuffer_plain isEscaped_iff gea_consts
      checksum_power_88_zero crc16_lo_def crc16_hi_def)

lemma zero_frame_board2:
  "setPowerLevels_txBuffer beyond GEN2_ADDR 0 0 0 =
     Some [0xE2, 0x89, 0x0B, 0x87, 0x28, 0x00, 0x00, 0x00, 0x06, 0xF1, 0xE3, 0xE1]"
  by (simp add: setPowerLevels_txBuffer_plain isEscaped_iff gea_consts
      checksum_power_89_zero crc16_lo_def crc16_hi_def)

lemma zero_frame_board3:
  "setPowerLevels_txBuffer beyond GEN3_ADDR 0 0 0 =
     Some [0xE2, 0x8A, 0x0B, 0x87, 0x28, 0x00, 0x00, 0x00, 0x0F, 0x68, 0xE3, 0xE1]"
  by (simp add: setPowerLevels_txBuffer_plain isEscaped_iff gea_consts
      checksum_power_8a_zero crc16_lo_def crc16_hi_def)

lemma initSingleGenerator_Some:
  "initSingleGenerator_txBuffer beyond address profile1 profile2 = Some txBuffer \<Longrightarrow>
   initSingleGenerator beyond address profile1 profile2 s =
     Some (0, s\<lparr>Serial2 := Serial2 s @ txBuffer\<rparr>)"
  by (simp add: initSingleGenerator_def print_txBuffer_eq)

lemma setPowerLevels_zero_Some:
  "setPowerLevels_txBuffer beyond address 0 0 0 = Some txBuffer \<Longrightarrow>
   setPowerLevels beyond address 0 0 0 s = Some (0, s\<lparr>Serial2 := Serial2 s @ txBuffer\<rparr>)"
  by (simp add: setPowerLevels_accepted)

subsection \<open>Round trip of frames free of the escape value\<close>

text \<open>
  A frame whose heartbeat is no control code, and in which neither the address, the
  payload bytes nor the two checksum bytes have the value of the escape marker, is
  accepted by the reference decoder and gives back its header, command and payload.
\<close>

lemma reference_decode_power_frame:
  assumes "address \<noteq> GEA_ESC" "coil1Level \<noteq> GEA_ESC" "coil2Level \<noteq> GEA_ESC"
    and "\<not> isEscaped heartbeat"
    and "crc16_lo (checksum_fold [GEA_SOF, address, 0x0b, LOCAL_ADDR, CMD_SET_PWR_LEVELS,
           coil1Level, coil2Level, heartbeat]) \<noteq> GEA_ESC"
    and "crc16_hi (checksum_fold [GEA_SOF, address, 0x0b, LOCAL_ADDR, CMD_SET_PWR_LEVELS,
           coil1Level, coil2Level, heartbeat]) \<noteq> GEA_ESC"
  shows "\<exists>txBuffer.
      setPowerLevels_txBuffer beyond address coil1Level coil2Level heartbeat = Some txBuffer
    \<and> reference_decode txBuffer =
        Some [GEA_SOF, address, 0x0b, LOCAL_ADDR, CMD_SET_PWR_LEVELS, coil1Level, coil2Level,
              heartbeat]"
proof -
  have hb: "heartbeat \<noteq> GEA_ESC"
    using assms(4) by (auto simp add: isEscaped_def)
  have fixed: "GEA_SOF \<noteq> GEA_ESC" "(0x0b :: uint8_t) \<noteq> GEA_ESC" "LOCAL_ADDR \<noteq> GEA_ESC"
    "CMD_SET_PWR_LEVELS \<noteq> GEA_ESC"
    by (simp_all add: gea_consts)
  show ?thesis
    using assms hb fixed
    by (simp add: setPowerLevels_txBuffer_plain reference_decode_def Let_def
        checksum_fold_reference [symmetric])
qed

lemma reference_decode_config_frame:
  assumes "address \<noteq> GEA_ESC" "profile1 \<noteq> GEA_ESC" "profile2 \<noteq> GEA_ESC"
    and "crc16_lo (checksum_fold [GEA_SOF, address, 0x0a, LOCAL_ADDR, CMD_SET_BOARD_CONFIG,
           profile1, profile2]) \<noteq> GEA_ESC"
    and "crc16_hi (checksum_fold [GEA_SOF, address, 0x0a, LOCAL_ADDR, CMD_SET_BOARD_CONFIG,
           profile1, profile2]) \<noteq> GEA_ESC"
  shows "\<exists>txBuffer.
      initSingleGenerator_txBuffer beyond address profile1 profile2 = Some txBuffer
    \<and> reference_decode txBuffer =
        Some [GEA_SOF, address, 0x0a, LOCAL_ADDR, CMD_SET_BOARD_CONFIG, profile1, profile2]"
proof -
  have fixed: "GEA_SOF \<noteq> GEA_ESC" "(0x0a :: uint8_t) \<noteq> GEA_ESC" "LOCAL_ADDR \<noteq> GEA_ESC"
    "CMD_SET_BOARD_CONFIG \<noteq> GEA_ESC"
    by (simp_all add: gea_consts)
  show ?thesis
    using assms fixed
    by (simp add: initSingleGenerator_txBuffer_eq reference_decode_def Let_def
        checksum_fold_reference [symmetric])
qed

section \<open>Properties from the specification\<close>

text \<open>
  C6. The checksum function depends on the buffer and the size only. On every buffer it
  is the fold of the step \<open>crc = (crc >> 8) ^ table[(crc ^ byte) & 0xFF]\<close> over the bytes in
  order from the seed 0xE300; with length 0 (or a null pointer) it is the seed; and it
  agrees with the table-free reference for the polynomial 0x1021 and the same seed.
\<close>

theorem CalculateCrc16_fold_seed_reference:
  "CalculateCrc16 (Some buffer) (length buffer) = Some (foldl crc16_step 0xe300 buffer)
   \<and> CalculateCrc16 (Some []) 0 = Some 0xe300
   \<and> CalculateCrc16 (Some buffer) 0 = Some 0xe300
   \<and> CalculateCrc16 None n = Some 0xe300
   \<and> CalculateCrc16 (Some buffer) (length buffer) = Some (reference_crc16 buffer)"
proof -
  have whole: "CalculateCrc16 (Some buffer) (length buffer) = Some (checksum_fold buffer)"
    by (rule CalculateCrc16_whole)
  have "CalculateCrc16 (Some buffer) (length buffer) = Some (reference_crc16 buffer)"
    using whole by (simp only: checksum_fold_reference)
  moreover have "CalculateCrc16 (Some buffer) (length buffer)
      = Some (foldl crc16_step 0xe300 buffer)"
    using whole by (simp only: checksum_fold_def)
  moreover have "CalculateCrc16 (Some buffer) 0 = Some 0xe300"
    and "CalculateCrc16 (Some []) 0 = Some 0xe300"
    and "CalculateCrc16 None n = Some 0xe300"
    by (simp_all add: CalculateCrc16_def)
  ultimately show ?thesis by simp
qed

text \<open>
  C10. Board configuration cannot fail: for every address and every pair of profile
  bytes, with no check on any of them, \<open>initSingleGenerator\<close> returns 0 and appends
  exactly eleven bytes to the bus: four header bytes, the command byte, the two profile
  bytes, two checksum bytes, the end-of-frame and the acknowledgment marker.
\<close>

theorem initSingleGenerator_never_fails:
  "\<exists>crc16_lo_byte crc16_hi_byte s'.
     initSingleGenerator beyond address profile1 profile2 s = Some (0, s')
     \<and> s' = s\<lparr>Serial2 := Serial2 s @
         [GEA_SOF, address, 0x0a, LOCAL_ADDR, CMD_SET_BOARD_CONFIG, profile1, profile2,
          crc16_lo_byte, crc16_hi_byte, GEA_EOF, GEA_ACK]\<rparr>
     \<and> length (Serial2 s') = length (Serial2 s) + 11"
proof -
  let ?crc16 = "checksum_fold [GEA_SOF, address, 0x0a, LOCAL_ADDR, CMD_SET_BOARD_CONFIG,
                               profile1, profile2]"
  show ?thesis
    by (intro exI [of _ "crc16_lo ?crc16"] exI [of _ "crc16_hi ?crc16"])
      (simp add: initSingleGenerator_eq)
qed

text \<open>
  C3. When both coil levels lie outside 0..19, \<open>setPowerLevels\<close> returns -1 and writes
  the message to the console only: the bus keeps its content. A second call with such
  arguments does the same, so the bus is still unchanged after both. The refusal ends
  that one call only: whatever command follows returns and transmits exactly what it
  would have without the refused call.
\<close>

theorem setPowerLevels_out_of_range_sends_nothing:
  assumes "uint coil1Level \<notin> {0..19}" and "uint coil2Level \<notin> {0..19}"
  shows "setPowerLevels beyond address coil1Level coil2Level heartbeat s =
           Some (- 1, Serial_println ''Power level out of range!'' s)
       \<and> Serial2 (Serial_println ''Power level out of range!'' s) = Serial2 s
       \<and> setPowerLevels beyond' address coil1Level coil2Level heartbeat
            (Serial_println ''Power level out of range!'' s) =
           Some (- 1, Serial_println ''Power level out of range!''
                        (Serial_println ''Power level out of range!'' s))
       \<and> Serial2 (Serial_println ''Power level out of range!''
                    (Serial_println ''Power level out of range!'' s)) = Serial2 s
       \<and> map_option (\<lambda>(r, s'). (r, drop (length (Serial2 s)) (Serial2 s')))
            (setPowerLevels beyond'' address' coil1Level' coil2Level' heartbeat'
               (Serial_println ''Power level out of range!'' s))
         = map_option (\<lambda>(r, s'). (r, drop (length (Serial2 s)) (Serial2 s')))
            (setPowerLevels beyond'' address' coil1Level' coil2Level' heartbeat' s)"
proof -
  note refused = setPowerLevels_refused [OF assms]
  show ?thesis
    by (simp only: refused Serial2_println setPowerLevels_bus_only)
qed


theorem setPowerLevels_out_of_range_sends_nothing_witness:
  "uint (20 :: uint8_t) \<notin> {0..19} \<and> uint (255 :: uint8_t) \<notin> {0..19}
   \<and> setPowerLevels (stale_fill 0) 0x88 20 255 7 io_boot =
         Some (- 1, Serial_println ''Power level out of range!'' io_boot)
   \<and> Serial2 (Serial_println ''Power level out of range!'' io_boot) = []
   \<and> setPowerLevels (stale_fill 0) 0x88 20 255 7
        (Serial_println ''Power level out of range!'' io_boot) =
         Some (- 1, Serial_println ''Power level out of range!''
                      (Serial_println ''Power level out of range!'' io_boot))
   \<and> Serial2 (Serial_println ''Power level out of range!''
                (Serial_println ''Power level out of range!'' io_boot)) = []"
proof -
  have h1: "uint (20 :: uint8_t) \<notin> {0..19}" and h2: "uint (255 :: uint8_t) \<notin> {0..19}"
    by simp_all
  have "Serial2 io_boot = []" by (simp add: io_boot_def)
  with setPowerLevels_out_of_range_sends_nothing
         [where coil1Level = 20 and coil2Level = 255 and beyond = "stale_fill 0"
            and address = "0x88" and heartbeat = 7 and s = io_boot
            and beyond' = "stale_fill 0", OF h1 h2] h1 h2
  show ?thesis by simp
qed

text \<open>
  C5. When at least one coil level lies in 0..19, for every heartbeat,
  \<open>setPowerLevels\<close> returns 0 and transmits a frame whose length field (third byte) is
  0x0B. If the heartbeat is one of the four control codes the frame has thirteen bytes
  and the escape marker stands immediately before the heartbeat, the length field
  staying 0x0B; otherwise the frame has twelve bytes and the heartbeat follows the two
  coil levels directly.
\<close>

theorem setPowerLevels_accepted_length_and_escape:
  assumes "uint coil1Level \<in> {0..19} \<or> uint coil2Level \<in> {0..19}"
  shows "\<exists>txBuffer.
           setPowerLevels beyond address coil1Level coil2Level heartbeat s =
             Some (0, s\<lparr>Serial2 := Serial2 s @ txBuffer\<rparr>)
         \<and> txBuffer ! 2 = 0x0b
         \<and> (if isEscaped heartbeat
              then length txBuffer = 13
                 \<and> take 9 txBuffer =
                     [GEA_SOF, address, 0x0b, LOCAL_ADDR, CMD_SET_PWR_LEVELS,
                      coil1Level, coil2Level, GEA_ESC, heartbeat]
              else length txBuffer = 12
                 \<and> take 8 txBuffer =
                     [GEA_SOF, address, 0x0b, LOCAL_ADDR, CMD_SET_PWR_LEVELS,
                      coil1Level, coil2Level, heartbeat])"
proof (cases "isEscaped heartbeat")
  case True
  let ?tx = "[GEA_SOF, address, 0x0b, LOCAL_ADDR, CMD_SET_PWR_LEVELS, coil1Level,
      coil2Level, GEA_ESC, heartbeat,
      crc16_lo (checksum_fold [GEA_SOF, address, 0x0b, LOCAL_ADDR, CMD_SET_PWR_LEVELS,
        coil1Level, coil2Level, GEA_ESC, heartbeat, beyond 2]),
      crc16_hi (checksum_fold [GEA_SOF, address, 0x0b, LOCAL_ADDR, CMD_SET_PWR_LEVELS,
        coil1Level, coil2Level, GEA_ESC, heartbeat, beyond 2]),
      GEA_EOF, GEA_ACK]"
  have "setPowerLevels beyond address coil1Level coil2Level heartbeat s =
          Some (0, s\<lparr>Serial2 := Serial2 s @ ?tx\<rparr>)"
    using True assms
    by (simp add: setPowerLevels_accepted setPowerLevels_txBuffer_escaped)
  then show ?thesis
    using True by (intro exI [of _ ?tx]) simp
next
  case False
  let ?tx = "[GEA_SOF, address, 0x0b, LOCAL_ADDR, CMD_SET_PWR_LEVELS, coil1Level,
      coil2Level, heartbeat,
      crc16_lo (checksum_fold [GEA_SOF, address, 0x0b, LOCAL_ADDR, CMD_SET_PWR_LEVELS,
        coil1Level, coil2Level, heartbeat]),
      crc16_hi (checksum_fold [GEA_SOF, address, 0x0b, LOCAL_ADDR, CMD_SET_PWR_LEVELS,
        coil1Level, coil2Level, heartbeat]),
      GEA_EOF, GEA_ACK]"
  have "setPowerLevels beyond address coil1Level coil2Level heartbeat s =
          Some (0, s\<lparr>Serial2 := Serial2 s @ ?tx\<rparr>)"
    using False assms
    by (simp add: setPowerLevels_accepted setPowerLevels_txBuffer_plain)
  then show ?thesis
    using False by (intro exI [of _ ?tx]) simp
qed

theorem setPowerLevels_accepted_length_and_escape_witness:
  "(uint (200 :: uint8_t) \<in> {0..19} \<or> uint (5 :: uint8_t) \<in> {0..19})
   \<and> isEscaped 0xe1
   \<and> (\<exists>txBuffer.
         setPowerLevels (stale_fill 0) 0x89 200 5 0xe1 io_boot =
           Some (0, io_boot\<lparr>Serial2 := Serial2 io_boot @ txBuffer\<rparr>)
       \<and> txBuffer ! 2 = 0x0b
       \<and> length txBuffer = 13
       \<and> take 9 txBuffer = [0xe2, 0x89, 0x0b, 0x87, 0x28, 200, 5, 0xe0, 0xe1])"
proof -
  have h: "uint (200 :: uint8_t) \<in> {0..19} \<or> uint (5 :: uint8_t) \<in> {0..19}"
    by simp
  have e: "isEscaped 0xe1"
    by (simp add: isEscaped_def GEA_ESC_def GEA_ACK_def)
  from setPowerLevels_accepted_length_and_escape
         [where coil1Level = 200 and coil2Level = 5 and beyond = "stale_fill 0"
            and address = "0x89" and heartbeat = "0xe1" and s = io_boot, OF h]
  show ?thesis
    using h e
    by (simp add: GEA_SOF_def GEA_ESC_def LOCAL_ADDR_def CMD_SET_PWR_LEVELS_def)
qed

text \<open>
  C7. Every frame put on the bus has the byte order start-of-frame marker (0xE2),
  destination, length, source, command, payload bytes (the escape marker before the
  heartbeat when it is a control code), low byte of the checksum the call computed,
  high byte of that checksum, end-of-frame marker (0xE3), acknowledgment marker (0xE1).
  The checksum named here is the value \<open>CalculateCrc16\<close> returned in that call.
\<close>

theorem frames_byte_order:
  "GEA_SOF = 0xe2 \<and> GEA_EOF = 0xe3 \<and> GEA_ACK = 0xe1
   \<and> (\<exists>crc16.
         crc16 = checksum_fold [GEA_SOF, address, 0x0a, LOCAL_ADDR, CMD_SET_BOARD_CONFIG,
                                profile1, profile2]
       \<and> initSingleGenerator beyond address profile1 profile2 s =
           Some (0, s\<lparr>Serial2 := Serial2 s @
             [GEA_SOF, address, 0x0a, LOCAL_ADDR, CMD_SET_BOARD_CONFIG, profile1, profile2,
              crc16_lo crc16, crc16_hi crc16, GEA_EOF, GEA_ACK]\<rparr>))
   \<and> (uint coil1Level \<in> {0..19} \<or> uint coil2Level \<in> {0..19} \<longrightarrow>
       (\<exists>crc16.
         crc16 =
           (if isEscaped heartbeat
            then checksum_fold [GEA_SOF, address, 0x0b, LOCAL_ADDR, CMD_SET_PWR_LEVELS,
                                coil1Level, coil2Level, GEA_ESC, heartbeat, beyond 2]
            else checksum_fold [GEA_SOF, address, 0x0b, LOCAL_ADDR, CMD_SET_PWR_LEVELS,
                                coil1Level, coil2Level, heartbeat])
       \<and> setPowerLevels beyond address coil1Level coil2Level heartbeat s =
           Some (0, s\<lparr>Serial2 := Serial2 s @
             [GEA_SOF, address, 0x0b, LOCAL_ADDR, CMD_SET_PWR_LEVELS, coil1Level, coil2Level]
             @ (if isEscaped heartbeat then [GEA_ESC, heartbeat] else [heartbeat])
             @ [crc16_lo crc16, crc16_hi crc16, GEA_EOF, GEA_ACK]\<rparr>)))"
proof -
  have markers: "GEA_SOF = 0xe2 \<and> GEA_EOF = 0xe3 \<and> GEA_ACK = 0xe1"
    by (simp add: GEA_SOF_def GEA_EOF_def GEA_ACK_def)
  have config: "\<exists>crc16.
         crc16 = checksum_fold [GEA_SOF, address, 0x0a, LOCAL_ADDR, CMD_SET_BOARD_CONFIG,
                                profile1, profile2]
       \<and> initSingleGenerator beyond address profile1 profile2 s =
           Some (0, s\<lparr>Serial2 := Serial2 s @
             [GEA_SOF, address, 0x0a, LOCAL_ADDR, CMD_SET_BOARD_CONFIG, profile1, profile2,
              crc16_lo crc16, crc16_hi crc16, GEA_EOF, GEA_ACK]\<rparr>)"
    by (simp add: initSingleGenerator_eq)
  have power: "\<exists>crc16.
         crc16 =
           (if isEscaped heartbeat
            then checksum_fold [GEA_SOF, address, 0x0b, LOCAL_ADDR, CMD_SET_PWR_LEVELS,
                                coil1Level, coil2Level, GEA_ESC, heartbeat, beyond 2]
            else checksum_fold [GEA_SOF, address, 0x0b, LOCAL_ADDR, CMD_SET_PWR_LEVELS,
                                coil1Level, coil2Level, heartbeat])
       \<and> setPowerLevels beyond address coil1Level coil2Level heartbeat s =
           Some (0, s\<lparr>Serial2 := Serial2 s @
             [GEA_SOF, address, 0x0b, LOCAL_ADDR, CMD_SET_PWR_LEVELS, coil1Level, coil2Level]
             @ (if isEscaped heartbeat then [GEA_ESC, heartbeat] else [heartbeat])
             @ [crc16_lo crc16, crc16_hi crc16, GEA_EOF, GEA_ACK]\<rparr>)"
    if "uint coil1Level \<in> {0..19} \<or> uint coil2Level \<in> {0..19}"
    using that
    by (cases "isEscaped heartbeat")
      (simp_all add: setPowerLevels_accepted setPowerLevels_txBuffer_escaped
        setPowerLevels_txBuffer_plain)
  from markers config power show ?thesis by blast
qed

theorem frames_byte_order_witness:
  "(uint (0 :: uint8_t) \<in> {0..19} \<or> uint (0 :: uint8_t) \<in> {0..19})
   \<and> setPowerLevels (stale_fill 0) 0x88 0 0 0xe0 io_boot =
       Some (0, io_boot\<lparr>Serial2 :=
         [0xE2, 0x88, 0x0B, 0x87, 0x28, 0x00, 0x00, 0xE0, 0xE0, 0x54, 0xAD, 0xE3, 0xE1]\<rparr>)"
proof -
  have h: "uint (0 :: uint8_t) \<in> {0..19} \<or> uint (0 :: uint8_t) \<in> {0..19}"
    by simp
  have e: "isEscaped 0xe0"
    by (simp add: isEscaped_iff)
  from frames_byte_order
         [where coil1Level = 0 and coil2Level = 0 and heartbeat = "0xe0"
            and address = "0x88" and beyond = "stale_fill 0" and s = io_boot]
  have "\<exists>crc16.
         crc16 = checksum_fold [GEA_SOF, 0x88, 0x0b, LOCAL_ADDR, CMD_SET_PWR_LEVELS,
                                0, 0, GEA_ESC, 0xe0, stale_fill 0 2]
       \<and> setPowerLevels (stale_fill 0) 0x88 0 0 0xe0 io_boot =
           Some (0, io_boot\<lparr>Serial2 := Serial2 io_boot @
             [GEA_SOF, 0x88, 0x0b, LOCAL_ADDR, CMD_SET_PWR_LEVELS, 0, 0]
             @ [GEA_ESC, 0xe0]
             @ [crc16_lo crc16, crc16_hi crc16, GEA_EOF, GEA_ACK]\<rparr>)"
    using h e by simp
  then show ?thesis
    using h
    by (simp add: gea_consts stale_fill_def checksum_power_88_hb_e0_stale_0
        crc16_lo_def crc16_hi_def io_boot_def)
qed

text \<open>
  C8. Started with the 4-coil personality, the initialization sequencer puts exactly
  four frames on the bus, in this order: configure board 1 (2500 W, 2500 W), configure
  board 2 (3700 W, 1800 W), zero power to board 1, zero power to board 2. Started with
  the 5-coil personality it puts exactly six frames on the bus: configure board 1
  (2500 W, 2500 W), board 2 (3700 W, none), board 3 (1800 W, 3200 W), then zero power
  to boards 1, 2 and 3. The frames are given byte by byte; the last seven conjuncts say
  that they are the frames the two builders produce for these commands.
\<close>

theorem initCooktop_frames:
  "initCooktop beyond PERSONALITY_FOUR_COILS s =
     Some (0, s\<lparr>Serial2 := Serial2 s @ concat
       [[0xE2, 0x88, 0x0A, 0x87, 0x26, 0x02, 0x02, 0xA6, 0x36, 0xE3, 0xE1],
        [0xE2, 0x89, 0x0A, 0x87, 0x26, 0x04, 0x01, 0x04, 0x8D, 0xE3, 0xE1],
        [0xE2, 0x88, 0x0B, 0x87, 0x28, 0x00, 0x00, 0x00, 0x3D, 0x64, 0xE3, 0xE1],
        [0xE2, 0x89, 0x0B, 0x87, 0x28, 0x00, 0x00, 0x00, 0x06, 0xF1, 0xE3, 0xE1]],
       delayed := delayed s + 400\<rparr>)
   \<and> initCooktop beyond PERSONALITY_FIVE_COILS s =
     Some (0, s\<lparr>Serial2 := Serial2 s @ concat
       [[0xE2, 0x88, 0x0A, 0x87, 0x26, 0x02, 0x02, 0xA6, 0x36, 0xE3, 0xE1],
        [0xE2, 0x89, 0x0A, 0x87, 0x26, 0x04, 0x00, 0x25, 0x9D, 0xE3, 0xE1],
        [0xE2, 0x8A, 0x0A, 0x87, 0x26, 0x01, 0x03, 0x14, 0x28, 0xE3, 0xE1],
        [0xE2, 0x88, 0x0B, 0x87, 0x28, 0x00, 0x00, 0x00, 0x3D, 0x64, 0xE3, 0xE1],
        [0xE2, 0x89, 0x0B, 0x87, 0x28, 0x00, 0x00, 0x00, 0x06, 0xF1, 0xE3, 0xE1],
        [0xE2, 0x8A, 0x0B, 0x87, 0x28, 0x00, 0x00, 0x00, 0x0F, 0x68, 0xE3, 0xE1]],
       delayed := delayed s + 600\<rparr>)
   \<and> initSingleGenerator_txBuffer b GEN1_ADDR COIL_TYPE_2500_WATT COIL_TYPE_2500_WATT =
       Some [0xE2, 0x88, 0x0A, 0x87, 0x26, 0x02, 0x02, 0xA6, 0x36, 0xE3, 0xE1]
   \<and> initSingleGenerator_txBuffer b GEN2_ADDR COIL_TYPE_3700_WATT COIL_TYPE_1800_WATT =
       Some [0xE2, 0x89, 0x0A, 0x87, 0x26, 0x04, 0x01, 0x04, 0x8D, 0xE3, 0xE1]
   \<and> initSingleGenerator_txBuffer b GEN2_ADDR COIL_TYPE_3700_WATT COIL_TYPE_NONE =
       Some [0xE2, 0x89, 0x0A, 0x87, 0x26, 0x04, 0x00, 0x25, 0x9D, 0xE3, 0xE1]
   \<and> initSingleGenerator_txBuffer b GEN3_ADDR COIL_TYPE_1800_WATT COIL_TYPE_3200_WATT =
       Some [0xE2, 0x8A, 0x0A, 0x87, 0x26, 0x01, 0x03, 0x14, 0x28, 0xE3, 0xE1]
   \<and> setPowerLevels_txBuffer b GEN1_ADDR 0 0 0 =
       Some [0xE2, 0x88, 0x0B, 0x87, 0x28, 0x00, 0x00, 0x00, 0x3D, 0x64, 0xE3, 0xE1]
   \<and> setPowerLevels_txBuffer b GEN2_ADDR 0 0 0 =
       Some [0xE2, 0x89, 0x0B, 0x87, 0x28, 0x00, 0x00, 0x00, 0x06, 0xF1, 0xE3, 0xE1]
   \<and> setPowerLevels_txBuffer b GEN3_ADDR 0 0 0 =
       Some [0xE2, 0x8A, 0x0B, 0x87, 0x28, 0x00, 0x00, 0x00, 0x0F, 0x68, 0xE3, 0xE1]"
proof -
  have four: "initCooktop beyond PERSONALITY_FOUR_COILS s =
     Some (0, s\<lparr>Serial2 := Serial2 s @ concat
       [[0xE2, 0x88, 0x0A, 0x87, 0x26, 0x02, 0x02, 0xA6, 0x36, 0xE3, 0xE1],
        [0xE2, 0x89, 0x0A, 0x87, 0x26, 0x04, 0x01, 0x04, 0x8D, 0xE3, 0xE1],
        [0xE2, 0x88, 0x0B, 0x87, 0x28, 0x00, 0x00, 0x00, 0x3D, 0x64, 0xE3, 0xE1],
        [0xE2, 0x89, 0x0B, 0x87, 0x28, 0x00, 0x00, 0x00, 0x06, 0xF1, 0xE3, 0xE1]],
       delayed := delayed s + 400\<rparr>)"
    unfolding initCooktop_def
    by (simp add: PERSONALITY_FOUR_COILS_def Let_def delay_def
        initSingleGenerator_Some [OF config_frame_board1]
        initSingleGenerator_Some [OF config_frame_board2_four_coils]
        setPowerLevels_zero_Some [OF zero_frame_board1]
        setPowerLevels_zero_Some [OF zero_frame_board2])
  have five: "initCooktop beyond PERSONALITY_FIVE_COILS s =
     Some (0, s\<lparr>Serial2 := Serial2 s @ concat
       [[0xE2, 0x88, 0x0A, 0x87, 0x26, 0x02, 0x02, 0xA6, 0x36, 0xE3, 0xE1],
        [0xE2, 0x89, 0x0A, 0x87, 0x26, 0x04, 0x00, 0x25, 0x9D, 0xE3, 0xE1],
        [0xE2, 0x8A, 0x0A, 0x87, 0x26, 0x01, 0x03, 0x14, 0x28, 0xE3, 0xE1],
        [0xE2, 0x88, 0x0B, 0x87, 0x28, 0x00, 0x00, 0x00, 0x3D, 0x64, 0xE3, 0xE1],
        [0xE2, 0x89, 0x0B, 0x87, 0x28, 0x00, 0x00, 0x00, 0x06, 0xF1, 0xE3, 0xE1],
        [0xE2, 0x8A, 0x0B, 0x87, 0x28, 0x00, 0x00, 0x00, 0x0F, 0x68, 0xE3, 0xE1]],
       delayed := delayed s + 600\<rparr>)"
    unfolding initCooktop_def
    by (simp add: PERSONALITY_FOUR_COILS_def PERSONALITY_FIVE_COILS_def Let_def delay_def
        initSingleGenerator_Some [OF config_frame_board1]
        initSingleGenerator_Some [OF config_frame_board2_five_coils]
        initSingleGenerator_Some [OF config_frame_board3]
        setPowerLevels_zero_Some [OF zero_frame_board1]
        setPowerLevels_zero_Some [OF zero_frame_board2]
        setPowerLevels_zero_Some [OF zero_frame_board3])
  show ?thesis
    by (simp only: four five config_frame_board1 config_frame_board2_four_coils
        config_frame_board2_five_coils config_frame_board3 zero_frame_board1
        zero_frame_board2 zero_frame_board3 simp_thms)
qed

text \<open>
  C4, as amended. In every frame built, the length field (0x0A for board configuration,
  0x0B for a power-level update) is the number of bytes of header, command, payload,
  checksum and end-of-frame marker: every byte of the frame except the acknowledgment
  marker and an inserted escape marker.
\<close>

theorem length_field_counts_through_end_of_frame:
  "(\<exists>txBuffer.
      initSingleGenerator_txBuffer beyond address profile1 profile2 = Some txBuffer
    \<and> unat (txBuffer ! 2) = 0x0a
    \<and> unat (txBuffer ! 2) = length txBuffer - 1)
   \<and> (\<exists>txBuffer.
      setPowerLevels_txBuffer beyond address coil1Level coil2Level heartbeat = Some txBuffer
    \<and> unat (txBuffer ! 2) = 0x0b
    \<and> unat (txBuffer ! 2) = length txBuffer - 1 - (if isEscaped heartbeat then 1 else 0))"
proof -
  have power: "\<exists>txBuffer.
      setPowerLevels_txBuffer beyond address coil1Level coil2Level heartbeat = Some txBuffer
    \<and> unat (txBuffer ! 2) = 0x0b
    \<and> unat (txBuffer ! 2) = length txBuffer - 1 - (if isEscaped heartbeat then 1 else 0)"
    by (cases "isEscaped heartbeat")
      (simp_all add: setPowerLevels_txBuffer_escaped setPowerLevels_txBuffer_plain)
  then show ?thesis
    by (simp add: initSingleGenerator_txBuffer_eq)
qed

text \<open>
  C4, as stated (the length field counts header, payload and checksum, without the
  end-of-frame marker), fails: the configuration frame for board 0x88 with profiles 2
  and 2 declares 10 in its length field, and has 9 bytes before its two trailer bytes.
\<close>

theorem length_field_exceeds_bytes_before_trailer:
  "initSingleGenerator_txBuffer (stale_fill 0) 0x88 0x02 0x02 =
     Some [0xE2, 0x88, 0x0A, 0x87, 0x26, 0x02, 0x02, 0xA6, 0x36, 0xE3, 0xE1]
   \<and> unat ([0xE2, 0x88, 0x0A, 0x87, 0x26, 0x02, 0x02, 0xA6, 0x36, 0xE3, 0xE1 :: uint8_t] ! 2)
       = 10
   \<and> length (butlast (butlast
         [0xE2, 0x88, 0x0A, 0x87, 0x26, 0x02, 0x02, 0xA6, 0x36, 0xE3, 0xE1 :: uint8_t])) = 9"
  by (simp add: initSingleGenerator_txBuffer_eq gea_consts checksum_config_88_2_2
      crc16_lo_def crc16_hi_def)

text \<open>
  C1, at heartbeat 0xE0 (address 0x88, both levels 0). The checksum sent is not that of
  the eight header and payload bytes, which is 0x9913: \<open>CalculateCrc16\<close> is called on ten
  bytes, the seven of \<open>msg\<close>, the escape marker, the heartbeat and \<open>txBuffer[9]\<close>, which
  still holds what \<open>memcpy\<close> read behind \<open>msg\<close>. With that byte 0 the frame carries
  0xAD54, with that byte 1 it carries 0xBD75.
\<close>

theorem setPowerLevels_escaped_checksum_region:
  "setPowerLevels (stale_fill 0) 0x88 0 0 0xe0 io_boot =
     Some (0, io_boot\<lparr>Serial2 :=
       [0xE2, 0x88, 0x0B, 0x87, 0x28, 0x00, 0x00, 0xE0, 0xE0, 0x54, 0xAD, 0xE3, 0xE1]\<rparr>)
   \<and> setPowerLevels (stale_fill 1) 0x88 0 0 0xe0 io_boot =
     Some (0, io_boot\<lparr>Serial2 :=
       [0xE2, 0x88, 0x0B, 0x87, 0x28, 0x00, 0x00, 0xE0, 0xE0, 0x75, 0xBD, 0xE3, 0xE1]\<rparr>)
   \<and> CalculateCrc16 (Some [0xE2, 0x88, 0x0B, 0x87, 0x28, 0x00, 0x00, 0xE0]) 8 = Some 0x9913
   \<and> CalculateCrc16 (Some [0xE2, 0x88, 0x0B, 0x87, 0x28, 0x00, 0x00, 0xE0, 0xE0, 0x00]) 10
       = Some 0xAD54
   \<and> CalculateCrc16 (Some [0xE2, 0x88, 0x0B, 0x87, 0x28, 0x00, 0x00, 0xE0, 0xE0, 0x01]) 10
       = Some 0xBD75"
proof -
  have "CalculateCrc16 (Some [0xE2, 0x88, 0x0B, 0x87, 0x28, 0x00, 0x00, 0xE0]) 8 = Some 0x9913"
    by (simp add: CalculateCrc16_prefix checksum_power_88_hb_e0_logical)
  moreover have "CalculateCrc16
      (Some [0xE2, 0x88, 0x0B, 0x87, 0x28, 0x00, 0x00, 0xE0, 0xE0, 0x00]) 10 = Some 0xAD54"
    by (simp add: CalculateCrc16_prefix checksum_power_88_hb_e0_stale_0)
  moreover have "CalculateCrc16
      (Some [0xE2, 0x88, 0x0B, 0x87, 0x28, 0x00, 0x00, 0xE0, 0xE0, 0x01]) 10 = Some 0xBD75"
    by (simp add: CalculateCrc16_prefix checksum_power_88_hb_e0_stale_1)
  moreover have "setPowerLevels (stale_fill 0) 0x88 0 0 0xe0 io_boot =
     Some (0, io_boot\<lparr>Serial2 :=
       [0xE2, 0x88, 0x0B, 0x87, 0x28, 0x00, 0x00, 0xE0, 0xE0, 0x54, 0xAD, 0xE3, 0xE1]\<rparr>)"
    by (simp add: setPowerLevels_accepted setPowerLevels_txBuffer_escaped isEscaped_iff
        gea_consts stale_fill_def checksum_power_88_hb_e0_stale_0 crc16_lo_def crc16_hi_def
        io_boot_def)
  moreover have "setPowerLevels (stale_fill 1) 0x88 0 0 0xe0 io_boot =
     Some (0, io_boot\<lparr>Serial2 :=
       [0xE2, 0x88, 0x0B, 0x87, 0x28, 0x00, 0x00, 0xE0, 0xE0, 0x75, 0xBD, 0xE3, 0xE1]\<rparr>)"
    by (simp add: setPowerLevels_accepted setPowerLevels_txBuffer_escaped isEscaped_iff
        gea_consts stale_fill_def checksum_power_88_hb_e0_stale_1 crc16_lo_def crc16_hi_def
        io_boot_def)
  ultimately show ?thesis by (simp only: simp_thms)
qed

text \<open>
  C2, at two accepted commands to board 0x88. With levels 0 and 0xE0 and heartbeat 0,
  the byte 0xE0 is sent as the second level directly after the byte 0x00. With levels
  0 and 0 and heartbeat 31, the low checksum byte is 0xE3 and is sent directly after
  the heartbeat 0x1F. In both frames a control code stands with no escape marker
  before it.
\<close>

theorem setPowerLevels_control_bytes_unescaped:
  "setPowerLevels (stale_fill 0) 0x88 0 0xe0 0 io_boot =
     Some (0, io_boot\<lparr>Serial2 :=
       [0xE2, 0x88, 0x0B, 0x87, 0x28, 0x00, 0xE0, 0x00, 0x6C, 0xA1, 0xE3, 0xE1]\<rparr>)
   \<and> setPowerLevels (stale_fill 0) 0x88 0 0 31 io_boot =
     Some (0, io_boot\<lparr>Serial2 :=
       [0xE2, 0x88, 0x0B, 0x87, 0x28, 0x00, 0x00, 0x1F, 0xE3, 0x87, 0xE3, 0xE1]\<rparr>)
   \<and> isEscaped 0xE0 \<and> isEscaped 0xE3 \<and> (0x00 :: uint8_t) \<noteq> GEA_ESC
   \<and> (0x1F :: uint8_t) \<noteq> GEA_ESC"
proof -
  have "setPowerLevels (stale_fill 0) 0x88 0 0xe0 0 io_boot =
     Some (0, io_boot\<lparr>Serial2 :=
       [0xE2, 0x88, 0x0B, 0x87, 0x28, 0x00, 0xE0, 0x00, 0x6C, 0xA1, 0xE3, 0xE1]\<rparr>)"
    by (simp add: setPowerLevels_accepted setPowerLevels_txBuffer_plain isEscaped_iff
        gea_consts checksum_power_88_coil2_e0 crc16_lo_def crc16_hi_def io_boot_def)
  moreover have "setPowerLevels (stale_fill 0) 0x88 0 0 31 io_boot =
     Some (0, io_boot\<lparr>Serial2 :=
       [0xE2, 0x88, 0x0B, 0x87, 0x28, 0x00, 0x00, 0x1F, 0xE3, 0x87, 0xE3, 0xE1]\<rparr>)"
    by (simp add: setPowerLevels_accepted setPowerLevels_txBuffer_plain isEscaped_iff
        gea_consts checksum_power_88_hb_31 crc16_lo_def crc16_hi_def io_boot_def)
  moreover have "isEscaped 0xE0 \<and> isEscaped 0xE3 \<and> (0x00 :: uint8_t) \<noteq> GEA_ESC
      \<and> (0x1F :: uint8_t) \<noteq> GEA_ESC"
    by (simp add: isEscaped_iff GEA_ESC_def)
  ultimately show ?thesis by (simp only: simp_thms)
qed

text \<open>
  C9, at three frames for board 0x88. The frame built for levels 0, 0 and heartbeat
  0xE0 is rejected by the reference decoder, its checksum not being that of the
  de-escaped header and payload. The frame built for levels 0, 0xE0 and heartbeat 0 is
  rejected too: the decoder takes the unescaped 0xE0 for an escape marker. The frame
  for levels 0, 0 and heartbeat 0 is accepted and gives back header and payload.
\<close>

theorem reference_decode_rejects_built_frames:
  "setPowerLevels_txBuffer (stale_fill 0) 0x88 0 0 0xe0 =
     Some [0xE2, 0x88, 0x0B, 0x87, 0x28, 0x00, 0x00, 0xE0, 0xE0, 0x54, 0xAD, 0xE3, 0xE1]
   \<and> reference_decode
        [0xE2, 0x88, 0x0B, 0x87, 0x28, 0x00, 0x00, 0xE0, 0xE0, 0x54, 0xAD, 0xE3, 0xE1] = None
   \<and> setPowerLevels_txBuffer (stale_fill 0) 0x88 0 0xe0 0 =
     Some [0xE2, 0x88, 0x0B, 0x87, 0x28, 0x00, 0xE0, 0x00, 0x6C, 0xA1, 0xE3, 0xE1]
   \<and> reference_decode
        [0xE2, 0x88, 0x0B, 0x87, 0x28, 0x00, 0xE0, 0x00, 0x6C, 0xA1, 0xE3, 0xE1] = None
   \<and> setPowerLevels_txBuffer (stale_fill 0) 0x88 0 0 0 =
     Some [0xE2, 0x88, 0x0B, 0x87, 0x28, 0x00, 0x00, 0x00, 0x3D, 0x64, 0xE3, 0xE1]
   \<and> reference_decode
        [0xE2, 0x88, 0x0B, 0x87, 0x28, 0x00, 0x00, 0x00, 0x3D, 0x64, 0xE3, 0xE1]
       = Some [0xE2, 0x88, 0x0B, 0x87, 0x28, 0x00, 0x00, 0x00]"
proof -
  have "reference_decode
        [0xE2, 0x88, 0x0B, 0x87, 0x28, 0x00, 0x00, 0xE0, 0xE0, 0x54, 0xAD, 0xE3, 0xE1] = None"
    by (simp add: reference_decode_def Let_def gea_consts
        checksum_fold_reference [symmetric] checksum_power_88_hb_e0_logical
        crc16_lo_def crc16_hi_def)
  moreover have "reference_decode
        [0xE2, 0x88, 0x0B, 0x87, 0x28, 0x00, 0xE0, 0x00, 0x6C, 0xA1, 0xE3, 0xE1] = None"
    by code_simp
  moreover have "reference_decode
        [0xE2, 0x88, 0x0B, 0x87, 0x28, 0x00, 0x00, 0x00, 0x3D, 0x64, 0xE3, 0xE1]
       = Some [0xE2, 0x88, 0x0B, 0x87, 0x28, 0x00, 0x00, 0x00]"
    by (simp add: reference_decode_def Let_def gea_consts
        checksum_fold_reference [symmetric] checksum_power_88_zero
        crc16_lo_def crc16_hi_def)
  moreover have "setPowerLevels_txBuffer (stale_fill 0) 0x88 0 0 0xe0 =
     Some [0xE2, 0x88, 0x0B, 0x87, 0x28, 0x00, 0x00, 0xE0, 0xE0, 0x54, 0xAD, 0xE3, 0xE1]"
    by (simp add: setPowerLevels_txBuffer_escaped isEscaped_iff gea_consts stale_fill_def
        checksum_power_88_hb_e0_stale_0 crc16_lo_def crc16_hi_def)
  moreover have "setPowerLevels_txBuffer (stale_fill 0) 0x88 0 0xe0 0 =
     Some [0xE2, 0x88, 0x0B, 0x87, 0x28, 0x00, 0xE0, 0x00, 0x6C, 0xA1, 0xE3, 0xE1]"
    by (simp add: setPowerLevels_txBuffer_plain isEscaped_iff gea_consts
        checksum_power_88_coil2_e0 crc16_lo_def crc16_hi_def)
  moreover have "setPowerLevels_txBuffer (stale_fill 0) 0x88 0 0 0 =
     Some [0xE2, 0x88, 0x0B, 0x87, 0x28, 0x00, 0x00, 0x00, 0x3D, 0x64, 0xE3, 0xE1]"
    by (simp add: setPowerLevels_txBuffer_plain isEscaped_iff gea_consts
        checksum_power_88_zero crc16_lo_def crc16_hi_def)
  ultimately show ?thesis by (simp only: simp_thms)
qed

end
